theory Spec2Isabelle
  imports Complex_Main "HOL-Library.Code_Target_Nat"
begin

section \<open>JavaScript values read from JSON\<close>

text \<open>
  The relay (the route handler \<open>POST\<close> and its adapters) works on values produced by
  \<open>JSON.parse\<close>: \<open>null\<close>, booleans, numbers, strings, arrays and plain objects. An
  object is the list of its own properties; \<open>map_of\<close> reads a key, so a key is read
  at its first entry. The JavaScript value \<open>undefined\<close> is \<open>None\<close> of an option type.

  A number is an IEEE double. \<open>JNum q\<close> is a finite double other than \<open>-0\<close>, with \<open>q\<close>
  the rational it denotes; \<open>JNegZero\<close> is \<open>-0\<close>; \<open>JInfinity True\<close> and
  \<open>JInfinity False\<close> are \<open>Infinity\<close> and \<open>-Infinity\<close>, which \<open>JSON.parse\<close> gives for
  a numeral beyond the range of doubles (\<open>1e400\<close>). \<open>NaN\<close> does not come out of
  \<open>JSON.parse\<close>. The rounding of a numeral to the nearest double happens inside
  \<open>response.json()\<close>, before the handler sees the value.
\<close>

datatype json =
    JNull
  | JBool bool
  | JNum rat
  | JNegZero
  | JInfinity bool
  | JStr string
  | JArr "json list"
  | JObj "(string \<times> json) list"

text \<open>\<open>typeof v === 'object'\<close>: true of objects, arrays and \<open>null\<close>.\<close>

fun typeof_object :: "json \<Rightarrow> bool" where
  "typeof_object JNull = True"
| "typeof_object (JArr xs) = True"
| "typeof_object (JObj kvs) = True"
| "typeof_object v = False"

text \<open>Truthiness, as \<open>!v\<close>, \<open>v && ...\<close> and \<open>v || ...\<close> test it.\<close>

fun truthy :: "json \<Rightarrow> bool" where
  "truthy JNull = False"
| "truthy (JBool b) = b"
| "truthy (JNum n) = (n \<noteq> 0)"
| "truthy JNegZero = False"
| "truthy (JInfinity pos) = True"
| "truthy (JStr s) = (s \<noteq> [])"
| "truthy (JArr xs) = True"
| "truthy (JObj kvs) = True"

text \<open>
  An optional string field (\<open>apiKey?: string\<close>) is absent (\<open>None\<close>) or a string; it is
  truthy when it is present and not empty. \<open>a || d\<close> on such a field is \<open>or_default\<close>.
\<close>

fun truthy_str :: "string option \<Rightarrow> bool" where
  "truthy_str None = False"
| "truthy_str (Some s) = (s \<noteq> [])"

fun or_default :: "string option \<Rightarrow> string \<Rightarrow> string" where
  "or_default None d = d"
| "or_default (Some s) d = (if s \<noteq> [] then s else d)"

subsection \<open>Property keys of arrays\<close>

text \<open>
  An array has the own property \<open>length\<close> and one own property for each index, whose
  key is the canonical decimal numeral of the index: \<open>"0"\<close>, \<open>"1"\<close>, \<open>"10"\<close>, but
  not \<open>"01"\<close>, \<open>"+1"\<close> or the empty string.
\<close>

definition is_digit :: "char \<Rightarrow> bool" where
  "is_digit c = (c \<in> set ''0123456789'')"

definition digit_val :: "char \<Rightarrow> nat" where
  "digit_val c = of_char c - 48"

fun parse_digits :: "nat \<Rightarrow> string \<Rightarrow> nat option" where
  "parse_digits acc [] = Some acc"
| "parse_digits acc (c # cs) =
     (if is_digit c then parse_digits (10 * acc + digit_val c) cs else None)"

definition array_index :: "string \<Rightarrow> nat option" where
  "array_index s =
     (case s of
        [] \<Rightarrow> None
      | c # cs \<Rightarrow> if c = CHR ''0'' \<and> cs \<noteq> [] then None else parse_digits 0 s)"

subsection \<open>The \<open>in\<close> operator and property access\<close>

text \<open>
  \<open>key in v\<close> and \<open>v[key]\<close> for a value that is an object or an array. The source never
  evaluates \<open>in\<close> on anything else (it tests \<open>typeof acc === 'object' && acc !== null\<close>
  first), and reads only the fixed keys \<open>content\<close>, \<open>choices\<close>, \<open>candidates\<close>,
  \<open>message\<close>, \<open>parts\<close> and \<open>text\<close> off other values, which no primitive value has.

  \<open>in\<close> also sees the properties inherited from \<open>Object.prototype\<close> and
  \<open>Array.prototype\<close>. Every one of them is a function, a number or a prototype object
  whose own properties are of these kinds again; a function stops the traversal
  (\<open>typeof\<close> gives \<open>'function'\<close>) and none is a string, so \<open>getNestedValue\<close>, which
  returns strings only, returns the same with and without them. The model reads own
  properties.
\<close>

fun js_get :: "json \<Rightarrow> string \<Rightarrow> json option" where
  "js_get (JObj kvs) k = map_of kvs k"
| "js_get (JArr xs) k =
     (if k = ''length'' then Some (JNum (of_nat (length xs)))
      else case array_index k of
             None \<Rightarrow> None
           | Some i \<Rightarrow> if i < length xs then Some (xs ! i) else None)"
| "js_get v k = None"

definition js_in :: "string \<Rightarrow> json \<Rightarrow> bool" where
  "js_in k v = (js_get v k \<noteq> None)"

section \<open>The dotted-path extractor \<open>getNestedValue\<close>\<close>

text \<open>\<open>path.split(".")\<close>: the segments between the dots; the empty string gives one
  empty segment.\<close>

fun split_dot :: "string \<Rightarrow> string list" where
  "split_dot [] = [[]]"
| "split_dot (c # cs) =
     (if c = CHR ''.'' then [] # split_dot cs
      else case split_dot cs of
             [] \<Rightarrow> [[c]]
           | p # ps \<Rightarrow> (c # p) # ps)"

text \<open>
  The callback of \<open>reduce\<close>: the accumulator is a value or \<open>undefined\<close>.

  \<^verbatim>\<open>
  (acc, part) => {
    if (typeof acc === 'object' && acc !== null && part in acc) return acc[part];
    return undefined;
  }
  \<close>
\<close>

fun reduce_step :: "json option \<Rightarrow> string \<Rightarrow> json option" where
  "reduce_step None part = None"
| "reduce_step (Some acc) part =
     (if typeof_object acc \<and> acc \<noteq> JNull \<and> js_in part acc then js_get acc part else None)"

definition getNestedValue :: "json \<Rightarrow> string \<Rightarrow> string option" where
  "getNestedValue obj path =
     (if path = [] then None
      else if \<not> typeof_object obj \<or> obj = JNull then None
      else case foldl reduce_step (Some obj) (split_dot path) of
             Some (JStr s) \<Rightarrow> Some s
           | _ \<Rightarrow> None)"

subsection \<open>The traversal as the specification words it\<close>

text \<open>
  The specification describes a walk along a sequence of plain keys that stops at the
  first segment that is missing or cannot be traversed, and a result that is a string or
  nothing. \<open>spec_child\<close> is one step of it (a key of an object, an index of an array,
  nothing below any other value); \<open>spec_traverse\<close> is the walk; \<open>spec_string\<close> keeps
  a string and drops everything else.
\<close>

fun spec_child :: "json \<Rightarrow> string \<Rightarrow> json option" where
  "spec_child (JObj kvs) k = map_of kvs k"
| "spec_child (JArr xs) k =
     (case array_index k of
        None \<Rightarrow> None
      | Some i \<Rightarrow> if i < length xs then Some (xs ! i) else None)"
| "spec_child v k = None"

fun spec_traverse :: "json \<Rightarrow> string list \<Rightarrow> json option" where
  "spec_traverse v [] = Some v"
| "spec_traverse v (k # ks) =
     (case spec_child v k of None \<Rightarrow> None | Some c \<Rightarrow> spec_traverse c ks)"

fun spec_string :: "json option \<Rightarrow> string option" where
  "spec_string (Some (JStr s)) = Some s"
| "spec_string v = None"

text \<open>Joining keys with dots, the inverse of \<open>split_dot\<close> on keys without a dot.\<close>

fun join_dot :: "string list \<Rightarrow> string" where
  "join_dot [] = []"
| "join_dot [k] = k"
| "join_dot (k # ks) = k @ CHR ''.'' # join_dot ks"

section \<open>Messages, configurations and requests\<close>

text \<open>
  The interfaces of the route file are records. Their fields carry a prefix for the record
  (\<open>msg_\<close>, \<open>cfg_\<close>, \<open>in_\<close>, \<open>req_\<close>, \<open>http_\<close>), because the interfaces share
  field names (\<open>apiKey\<close>) with each other and with the parameters of the adapters.

  \<open>ApiChatMessage\<close>: \<open>role\<close> is one of three literals, \<open>content\<close> a string.
\<close>

datatype Role = User | Assistant | System

fun role_str :: "Role \<Rightarrow> string" where
  "role_str User = ''user''"
| "role_str Assistant = ''assistant''"
| "role_str System = ''system''"

record ApiChatMessage =
  msg_role :: Role
  msg_content :: string

text \<open>\<open>CustomApiConfigForBackend\<close>; a field declared with \<open>?\<close> is optional.\<close>

record CustomApiConfigForBackend =
  cfg_id :: string
  cfg_name :: string
  cfg_endpoint :: string
  cfg_apiKey :: string
  cfg_apiKeyHeaderName :: "string option"
  cfg_apiKeyPrefix :: "string option"
  cfg_modelParamName :: "string option"
  cfg_messagesParamName :: "string option"
  cfg_responsePath :: "string option"

text \<open>
  \<open>RequestBody\<close>, the parsed body of the inbound request at the type the handler
  declares for it (the cast of line 244). \<open>provider\<close> and \<open>messages\<close> are declared
  required, but the handler tests them, so they are optional here: \<open>None\<close> is a body
  without the field. A body outside the declared type is outside the model: when
  \<open>messages\<close> is truthy and not an array, or an array with a \<open>null\<close> entry, the
  mapping of lines 255 to 258 throws after the validation and before the routing, and the
  handler answers with status 500; a \<open>responsePath\<close> that is not a string throws in
  \<open>getNestedValue\<close> likewise. The statements about \<open>POST\<close> below speak of bodies of the
  declared type.
\<close>

record InboundMessage =
  in_sender :: string
  in_text :: string

record RequestBody =
  req_provider :: "string option"
  req_apiKey :: "string option"
  req_messages :: "InboundMessage list option"
  req_model :: "string option"
  req_customApiConfig :: "CustomApiConfigForBackend option"

text \<open>
  What an adapter hands to \<open>fetch\<close>: the URL, the \<open>headers\<close> object and the value
  that \<open>JSON.stringify\<close> serialises as the body. The method is always \<open>POST\<close>.
\<close>

record HttpRequest =
  http_url :: string
  http_headers :: "(string \<times> string) list"
  http_body :: json

text \<open>
  \<open>obj[k] = v\<close> on a plain object. An own property that exists is overwritten where it
  stands. A new one is listed after the others, unless its key is an array index (the
  canonical numeral of a number below \<open>2^32 - 1\<close>): the index keys of an object are
  listed first, in ascending order. The key \<open>__proto__\<close> is the accessor of
  \<open>Object.prototype\<close>: assigning to it never creates an own property, so the own
  properties, which are all that \<open>JSON.stringify\<close> and \<open>fetch\<close> read, stay as they
  are.
\<close>

definition index_key :: "string \<Rightarrow> nat option" where
  "index_key k =
     (case array_index k of
        None \<Rightarrow> None
      | Some n \<Rightarrow> if n < 4294967295 then Some n else None)"

fun js_overwrite :: "string \<Rightarrow> 'v \<Rightarrow> (string \<times> 'v) list \<Rightarrow> (string \<times> 'v) list" where
  "js_overwrite k v [] = []"
| "js_overwrite k v ((k', v') # kvs) =
     (if k' = k then (k, v) # kvs else (k', v') # js_overwrite k v kvs)"

fun js_insert_index :: "nat \<Rightarrow> string \<Rightarrow> 'v \<Rightarrow> (string \<times> 'v) list \<Rightarrow> (string \<times> 'v) list" where
  "js_insert_index n k v [] = [(k, v)]"
| "js_insert_index n k v ((k', v') # kvs) =
     (case index_key k' of
        None \<Rightarrow> (k, v) # (k', v') # kvs
      | Some n' \<Rightarrow>
          if n' < n then (k', v') # js_insert_index n k v kvs
          else (k, v) # (k', v') # kvs)"

definition js_assign :: "string \<Rightarrow> 'v \<Rightarrow> (string \<times> 'v) list \<Rightarrow> (string \<times> 'v) list" where
  "js_assign k v kvs =
     (if map_of kvs k \<noteq> None then js_overwrite k v kvs
      else case index_key k of
             None \<Rightarrow> kvs @ [(k, v)]
           | Some n \<Rightarrow> js_insert_index n k v kvs)"

definition js_set :: "string \<Rightarrow> 'v \<Rightarrow> (string \<times> 'v) list \<Rightarrow> (string \<times> 'v) list" where
  "js_set k v obj = (if k = ''__proto__'' then obj else js_assign k v obj)"

text \<open>\<open>messages.map(m => ({ role: m.role, content: m.content }))\<close>\<close>

definition role_content :: "ApiChatMessage \<Rightarrow> json" where
  "role_content m = JObj [(''role'', JStr (role_str (msg_role m))), (''content'', JStr (msg_content m))]"

section \<open>The provider as the adapters see it\<close>

text \<open>
  The outbound call is the one effect of the relay. The provider is a parameter: a
  function from the request to what the adapter gets back. \<open>Inr v\<close> is a response with
  an ok status whose body parses to \<open>v\<close>, which the adapter returns as it is. \<open>Inl msg\<close>
  is every way the adapter throws (a transport failure, a status that is not ok, a body
  that is not JSON); \<open>msg\<close> is the text that the \<open>catch\<close> of \<open>POST\<close> puts in its
  envelope. Each adapter records which one it is and what it sent.
\<close>

datatype Adapter = DeepSeek | OpenAI | Anthropic | Gemini | Custom

type_synonym provider_stub = "HttpRequest \<Rightarrow> string + json"

type_synonym call_result = "(string + json) \<times> (Adapter \<times> HttpRequest) list"

definition perform :: "provider_stub \<Rightarrow> Adapter \<Rightarrow> HttpRequest \<Rightarrow> call_result" where
  "perform fetch a r = (fetch r, [(a, r)])"

section \<open>The adapters\<close>

definition deepSeekRequest :: "string \<Rightarrow> ApiChatMessage list \<Rightarrow> string option \<Rightarrow> HttpRequest" where
  "deepSeekRequest apiKey messages model =
     \<lparr> http_url = ''https://api.deepseek.com/chat/completions'',
       http_headers = [(''Content-Type'', ''application/json''),
                       (''Authorization'', ''Bearer '' @ apiKey)],
       http_body = JObj [(''model'', JStr (or_default model ''deepseek-chat'')),
                         (''messages'', JArr (map role_content messages))] \<rparr>"

definition callDeepSeekAPI ::
  "provider_stub \<Rightarrow> string \<Rightarrow> ApiChatMessage list \<Rightarrow> string option \<Rightarrow> call_result" where
  "callDeepSeekAPI fetch apiKey messages model =
     perform fetch DeepSeek (deepSeekRequest apiKey messages model)"

definition openAIRequest :: "string \<Rightarrow> ApiChatMessage list \<Rightarrow> string option \<Rightarrow> HttpRequest" where
  "openAIRequest apiKey messages model =
     \<lparr> http_url = ''https://api.openai.com/v1/chat/completions'',
       http_headers = [(''Content-Type'', ''application/json''),
                       (''Authorization'', ''Bearer '' @ apiKey)],
       http_body = JObj [(''model'', JStr (or_default model ''gpt-3.5-turbo'')),
                         (''messages'', JArr (map role_content messages))] \<rparr>"

definition callOpenAIAPI ::
  "provider_stub \<Rightarrow> string \<Rightarrow> ApiChatMessage list \<Rightarrow> string option \<Rightarrow> call_result" where
  "callOpenAIAPI fetch apiKey messages model =
     perform fetch OpenAI (openAIRequest apiKey messages model)"

text \<open>
  The Anthropic adapter filters with a callback that writes \<open>systemPrompt\<close>:

  \<^verbatim>\<open>
  let systemPrompt = "";
  messages.filter(msg => {
    if (msg.role === "system") { systemPrompt = msg.content; return false; }
    return true;
  })
  \<close>

  \<open>anthropic_filter\<close> threads the variable through the list and returns the kept
  messages with its last value.
\<close>

fun anthropic_filter :: "string \<Rightarrow> ApiChatMessage list \<Rightarrow> ApiChatMessage list \<times> string" where
  "anthropic_filter systemPrompt [] = ([], systemPrompt)"
| "anthropic_filter systemPrompt (msg # rest) =
     (if msg_role msg = System then anthropic_filter (msg_content msg) rest
      else case anthropic_filter systemPrompt rest of
             (kept, sp) \<Rightarrow> (msg # kept, sp))"

definition anthropic_turn :: "ApiChatMessage \<Rightarrow> json" where
  "anthropic_turn msg =
     JObj [(''role'', JStr (if msg_role msg = Assistant then ''assistant'' else ''user'')),
           (''content'', JStr (msg_content msg))]"

definition anthropicRequest :: "string \<Rightarrow> ApiChatMessage list \<Rightarrow> string option \<Rightarrow> HttpRequest" where
  "anthropicRequest apiKey messages model =
     (case anthropic_filter [] messages of
        (kept, systemPrompt) \<Rightarrow>
          let anthropicMessages = map anthropic_turn kept;
              body = [(''model'', JStr (or_default model ''claude-3-sonnet-20240229'')),
                      (''max_tokens'', JNum 1024),
                      (''messages'', JArr anthropicMessages)];
              body' = (if systemPrompt \<noteq> [] then js_assign ''system'' (JStr systemPrompt) body
                       else body)
          in \<lparr> http_url = ''https://api.anthropic.com/v1/messages'',
               http_headers = [(''Content-Type'', ''application/json''),
                               (''x-api-key'', apiKey),
                               (''anthropic-version'', ''2023-06-01'')],
               http_body = JObj body' \<rparr>)"

definition callAnthropicAPI ::
  "provider_stub \<Rightarrow> string \<Rightarrow> ApiChatMessage list \<Rightarrow> string option \<Rightarrow> call_result" where
  "callAnthropicAPI fetch apiKey messages model =
     perform fetch Anthropic (anthropicRequest apiKey messages model)"

definition gemini_role :: "Role \<Rightarrow> string" where
  "gemini_role r = (if r = Assistant then ''model'' else if r = System then ''user'' else role_str r)"

definition gemini_turn :: "ApiChatMessage \<Rightarrow> json" where
  "gemini_turn msg =
     JObj [(''role'', JStr (gemini_role (msg_role msg))),
           (''parts'', JArr [JObj [(''text'', JStr (msg_content msg))]])]"

definition geminiRequest :: "string \<Rightarrow> ApiChatMessage list \<Rightarrow> string option \<Rightarrow> HttpRequest" where
  "geminiRequest apiKey messages model =
     (let geminiHistory = map gemini_turn messages;
          currentModel = or_default model ''gemini-1.5-flash-latest''
      in \<lparr> http_url = ''https://generativelanguage.googleapis.com/v1beta/models/''
                        @ currentModel @ '':generateContent?key='' @ apiKey,
           http_headers = [(''Content-Type'', ''application/json'')],
           http_body = JObj [(''contents'', JArr geminiHistory)] \<rparr>)"

definition callGeminiAPI ::
  "provider_stub \<Rightarrow> string \<Rightarrow> ApiChatMessage list \<Rightarrow> string option \<Rightarrow> call_result" where
  "callGeminiAPI fetch apiKey messages model =
     perform fetch Gemini (geminiRequest apiKey messages model)"

text \<open>The headers of the custom adapter (lines 173 to 181 of the route file).\<close>

definition custom_headers :: "CustomApiConfigForBackend \<Rightarrow> (string \<times> string) list" where
  "custom_headers customConfig =
     (let apiKey = cfg_apiKey customConfig;
          headers = [(''Content-Type'', ''application/json'')]
      in if truthy_str (cfg_apiKeyHeaderName customConfig) \<and> apiKey \<noteq> []
         then js_set (the (cfg_apiKeyHeaderName customConfig))
                (or_default (cfg_apiKeyPrefix customConfig) [] @ apiKey) headers
         else if apiKey \<noteq> [] then js_set ''Authorization'' (''Bearer '' @ apiKey) headers
         else headers)"

text \<open>The body of the custom adapter (lines 183 to 191).\<close>

definition custom_body ::
  "CustomApiConfigForBackend \<Rightarrow> ApiChatMessage list \<Rightarrow> string option \<Rightarrow> (string \<times> json) list" where
  "custom_body customConfig messages model =
     (let effectiveMessagesParamName = or_default (cfg_messagesParamName customConfig) ''messages'';
          body = js_set effectiveMessagesParamName (JArr (map role_content messages)) []
      in if truthy_str (cfg_modelParamName customConfig) \<and> truthy_str model
         then js_set (the (cfg_modelParamName customConfig)) (JStr (the model)) body
         else if truthy_str model then js_set ''model'' (JStr (the model)) body
         else body)"

definition customRequest ::
  "CustomApiConfigForBackend \<Rightarrow> ApiChatMessage list \<Rightarrow> string option \<Rightarrow> HttpRequest" where
  "customRequest customConfig messages model =
     \<lparr> http_url = cfg_endpoint customConfig,
       http_headers = custom_headers customConfig,
       http_body = JObj (custom_body customConfig messages model) \<rparr>"

definition callCustomAPI ::
  "provider_stub \<Rightarrow> CustomApiConfigForBackend \<Rightarrow> ApiChatMessage list \<Rightarrow> string option \<Rightarrow> call_result" where
  "callCustomAPI fetch customConfig messages model =
     perform fetch Custom (customRequest customConfig messages model)"

section \<open>Extraction of the reply text\<close>

text \<open>
  The handler tests the same shapes in several branches. \<open>first_of_array\<close> is the outer
  test

  \<^verbatim>\<open>responseData && typeof responseData === 'object' &&
  Array.isArray(responseData.k) && responseData.k.length > 0\<close>

  and gives \<open>responseData.k[0]\<close> when it holds.
\<close>

definition first_of_array :: "json \<Rightarrow> string \<Rightarrow> json option" where
  "first_of_array responseData k =
     (if truthy responseData \<and> typeof_object responseData then
        (case js_get responseData k of
           Some (JArr (x # xs)) \<Rightarrow> Some x
         | _ \<Rightarrow> None)
      else None)"

text \<open>\<open>firstContentItem && typeof firstContentItem.text === 'string'\<close>\<close>

definition content_item_text :: "json \<Rightarrow> string option" where
  "content_item_text firstContentItem =
     (if truthy firstContentItem then
        (case js_get firstContentItem ''text'' of Some (JStr t) \<Rightarrow> Some t | _ \<Rightarrow> None)
      else None)"

text \<open>The tests on \<open>firstChoice\<close>, \<open>firstChoice.message\<close> and \<open>message.content\<close>.\<close>

definition choice_message_content :: "json \<Rightarrow> string option" where
  "choice_message_content firstChoice =
     (if truthy firstChoice \<and> typeof_object firstChoice then
        (case js_get firstChoice ''message'' of
           Some message \<Rightarrow>
             if truthy message \<and> typeof_object message then
               (case js_get message ''content'' of Some (JStr t) \<Rightarrow> Some t | _ \<Rightarrow> None)
             else None
         | None \<Rightarrow> None)
      else None)"

text \<open>The tests on \<open>firstCandidate\<close>, its \<open>content\<close>, \<open>content.parts\<close> and the first part.\<close>

definition candidate_part_text :: "json \<Rightarrow> string option" where
  "candidate_part_text firstCandidate =
     (if truthy firstCandidate \<and> typeof_object firstCandidate then
        (case js_get firstCandidate ''content'' of
           Some content \<Rightarrow>
             if truthy content \<and> typeof_object content then
               (case js_get content ''parts'' of
                  Some (JArr (firstPart # ps)) \<Rightarrow>
                    if truthy firstPart \<and> typeof_object firstPart then
                      (case js_get firstPart ''text'' of Some (JStr t) \<Rightarrow> Some t | _ \<Rightarrow> None)
                    else None
                | _ \<Rightarrow> None)
             else None
         | None \<Rightarrow> None)
      else None)"

text \<open>
  The chain of lines 290 to 392. \<open>aiMessageText\<close> starts as the default text and a
  branch may assign it; \<open>assigned\<close> is the value a branch assigns, \<open>None\<close> when none
  does.
\<close>

definition assigned ::
  "string \<Rightarrow> bool \<Rightarrow> CustomApiConfigForBackend option \<Rightarrow> json \<Rightarrow> string option" where
  "assigned provider isCustomProvider customApiConfig responseData =
     (let responsePath = (case customApiConfig of None \<Rightarrow> None | Some c \<Rightarrow> cfg_responsePath c)
      in
      if isCustomProvider \<and> truthy_str responsePath then
        (case getNestedValue responseData (the responsePath) of
           Some extractedText \<Rightarrow> Some extractedText
         | None \<Rightarrow> Some ''Error: Custom API response format mismatch.'')
      else if provider = ''anthropic'' then
        (case first_of_array responseData ''content'' of
           Some firstContentItem \<Rightarrow> content_item_text firstContentItem
         | None \<Rightarrow> None)
      else if provider = ''openai'' \<or> provider = ''deepseek'' then
        (case first_of_array responseData ''choices'' of
           Some firstChoice \<Rightarrow> choice_message_content firstChoice
         | None \<Rightarrow> None)
      else if provider = ''gemini'' then
        (case first_of_array responseData ''candidates'' of
           Some firstCandidate \<Rightarrow> candidate_part_text firstCandidate
         | None \<Rightarrow> None)
      else if isCustomProvider then
        (case first_of_array responseData ''choices'' of
           Some firstChoice \<Rightarrow> choice_message_content firstChoice
         | None \<Rightarrow>
            (case first_of_array responseData ''content'' of
               Some firstContentItem \<Rightarrow> content_item_text firstContentItem
             | None \<Rightarrow> None))
      else None)"

definition aiMessageText ::
  "string \<Rightarrow> bool \<Rightarrow> CustomApiConfigForBackend option \<Rightarrow> json \<Rightarrow> string" where
  "aiMessageText provider isCustomProvider customApiConfig responseData =
     (case assigned provider isCustomProvider customApiConfig responseData of
        None \<Rightarrow> ''Error: Could not parse AI response.''
      | Some t \<Rightarrow> t)"

section \<open>The relay entry point \<open>POST\<close>\<close>

text \<open>
  The answer of the relay: \<open>NextResponse.json({aiResponse, rawResponse})\<close> with status
  200, or \<open>NextResponse.json({error}, {status})\<close>. A \<open>RelayResponse\<close> holds the values
  the handler passes to \<open>NextResponse.json\<close>.
\<close>

datatype RelayResponse =
    Json200 (aiResponse: string) (rawResponse: json)
  | JsonError (status: nat) (error: string)

text \<open>
  \<open>NextResponse.json\<close> writes its argument with \<open>JSON.stringify\<close>. \<open>stringified v\<close>
  is the value that the text written for \<open>v\<close> denotes: an infinity is written as
  \<open>null\<close> and \<open>-0\<close> as \<open>0\<close>; every other value is written as it is. \<open>delivered\<close>
  is the answer as its reader gets it.
\<close>

primrec stringified :: "json \<Rightarrow> json" where
  "stringified JNull = JNull"
| "stringified (JBool b) = JBool b"
| "stringified (JNum q) = JNum q"
| "stringified JNegZero = JNum 0"
| "stringified (JInfinity pos) = JNull"
| "stringified (JStr s) = JStr s"
| "stringified (JArr xs) = JArr (map stringified xs)"
| "stringified (JObj kvs) = JObj (map (map_prod id stringified) kvs)"

fun delivered :: "RelayResponse \<Rightarrow> RelayResponse" where
  "delivered (Json200 t raw) = Json200 t (stringified raw)"
| "delivered (JsonError s e) = JsonError s e"

text \<open>A value in which every number is finite and not \<open>-0\<close>.\<close>

primrec plain_numbers :: "json \<Rightarrow> bool" where
  "plain_numbers JNull = True"
| "plain_numbers (JBool b) = True"
| "plain_numbers (JNum q) = True"
| "plain_numbers JNegZero = False"
| "plain_numbers (JInfinity pos) = False"
| "plain_numbers (JStr s) = True"
| "plain_numbers (JArr xs) = list_all id (map plain_numbers xs)"
| "plain_numbers (JObj kvs) = list_all snd (map (map_prod id plain_numbers) kvs)"

definition apiMessage :: "InboundMessage \<Rightarrow> ApiChatMessage" where
  "apiMessage msg =
     \<lparr> msg_role = (if in_sender msg = ''user'' then User else Assistant),
       msg_content = in_text msg \<rparr>"

text \<open>
  \<open>route\<close> is lines 265 to 286: the adapter call, or the early \<open>return\<close> of an error
  envelope (\<open>Inl\<close>), in which case nothing was called.
\<close>

definition route ::
  "provider_stub \<Rightarrow> string \<Rightarrow> string option \<Rightarrow> bool \<Rightarrow> CustomApiConfigForBackend option \<Rightarrow>
   ApiChatMessage list \<Rightarrow> string option \<Rightarrow> RelayResponse + call_result" where
  "route fetch provider apiKey isCustomProvider customApiConfig apiMessages requestedModel =
     (if isCustomProvider \<and> customApiConfig \<noteq> None then
        Inr (callCustomAPI fetch (the customApiConfig) apiMessages requestedModel)
      else if truthy_str apiKey then
        (if provider = ''deepseek'' then
           Inr (callDeepSeekAPI fetch (the apiKey) apiMessages requestedModel)
         else if provider = ''openai'' then
           Inr (callOpenAIAPI fetch (the apiKey) apiMessages requestedModel)
         else if provider = ''anthropic'' then
           Inr (callAnthropicAPI fetch (the apiKey) apiMessages requestedModel)
         else if provider = ''gemini'' then
           Inr (callGeminiAPI fetch (the apiKey) apiMessages requestedModel)
         else Inl (JsonError 400 ''Unsupported or misconfigured AI provider''))
      else Inl (JsonError 400 ''Provider configuration error''))"

text \<open>
  \<open>POST\<close> returns the answer and the outbound calls it made, in order. A throw of the
  adapter is caught by the handler and answered with status 500.
\<close>

definition POST :: "provider_stub \<Rightarrow> RequestBody \<Rightarrow> RelayResponse \<times> (Adapter \<times> HttpRequest) list" where
  "POST fetch body =
     (let apiKey = req_apiKey body;
          requestedModel = req_model body;
          customApiConfig = req_customApiConfig body
      in
      if \<not> truthy_str (req_provider body) \<or> req_messages body = None then
        (JsonError 400 ''Missing provider or messages'', [])
      else if customApiConfig = None \<and> \<not> truthy_str apiKey then
        (JsonError 400 ''Missing apiKey'', [])
      else
        let provider = the (req_provider body);
            messages = the (req_messages body);
            apiMessages = map apiMessage messages;
            isCustomProvider =
              (case customApiConfig of None \<Rightarrow> False | Some c \<Rightarrow> cfg_id c = provider)
        in
        case route fetch provider apiKey isCustomProvider customApiConfig apiMessages requestedModel of
          Inl early \<Rightarrow> (early, [])
        | Inr (Inl message, calls) \<Rightarrow> (JsonError 500 message, calls)
        | Inr (Inr responseData, calls) \<Rightarrow>
            (Json200 (aiMessageText provider isCustomProvider customApiConfig responseData)
               responseData, calls))"

section \<open>The rules of the specification\<close>

text \<open>
  The extraction rules as the specification words them: \<open>content[0].text\<close> where
  \<open>content\<close> is a non-empty array, \<open>choices[0].message.content\<close> where \<open>choices\<close> is
  a non-empty array, and \<open>candidates[0].content.parts[0].text\<close> with every container
  checked.
\<close>

definition spec_anthropic_rule :: "json \<Rightarrow> string option" where
  "spec_anthropic_rule r =
     (case spec_child r ''content'' of
        Some (JArr (x # xs)) \<Rightarrow> spec_string (spec_child x ''text'')
      | _ \<Rightarrow> None)"

definition spec_openai_rule :: "json \<Rightarrow> string option" where
  "spec_openai_rule r =
     (case spec_child r ''choices'' of
        Some (JArr (x # xs)) \<Rightarrow> spec_string (spec_traverse x [''message'', ''content''])
      | _ \<Rightarrow> None)"

definition spec_gemini_rule :: "json \<Rightarrow> string option" where
  "spec_gemini_rule r =
     (case spec_child r ''candidates'' of
        Some (JArr (x # xs)) \<Rightarrow>
          (case spec_traverse x [''content'', ''parts''] of
             Some (JArr (p # ps)) \<Rightarrow> spec_string (spec_child p ''text'')
           | _ \<Rightarrow> None)
      | _ \<Rightarrow> None)"

text \<open>
  Which rule the relay consults for a request is read off the chain of the handler: the
  response path of the configuration when the request goes to the custom adapter and the
  path is not empty; otherwise the rule of the provider name; otherwise the two common
  shapes. \<open>no_rule_matches\<close> says that what it consults finds nothing in the response.
\<close>

definition consulted_path :: "RequestBody \<Rightarrow> string option" where
  "consulted_path body =
     (case req_customApiConfig body of
        None \<Rightarrow> None
      | Some c \<Rightarrow>
          if Some (cfg_id c) = req_provider body \<and> truthy_str (cfg_responsePath c)
          then cfg_responsePath c else None)"

definition no_rule_matches :: "RequestBody \<Rightarrow> json \<Rightarrow> bool" where
  "no_rule_matches body r =
     (case consulted_path body of
        Some path \<Rightarrow> spec_string (spec_traverse r (split_dot path)) = None
      | None \<Rightarrow>
          if req_provider body = Some ''anthropic'' then spec_anthropic_rule r = None
          else if req_provider body = Some ''openai'' \<or> req_provider body = Some ''deepseek''
            then spec_openai_rule r = None
          else if req_provider body = Some ''gemini'' then spec_gemini_rule r = None
          else spec_openai_rule r = None \<and> spec_anthropic_rule r = None)"

text \<open>The content of the last system message of a history, empty when there is none.\<close>

definition last_system :: "ApiChatMessage list \<Rightarrow> string" where
  "last_system messages =
     (case filter (\<lambda>m. msg_role m = System) messages of
        [] \<Rightarrow> []
      | s # ss \<Rightarrow> msg_content (last (s # ss)))"

section \<open>Fixtures\<close>

text \<open>
  A provider that answers every request with the same JSON value, the response bodies of
  the scenarios of the specification, a custom configuration and request bodies.
\<close>

definition stub_returning :: "json \<Rightarrow> provider_stub" where
  "stub_returning v r = Inr v"

definition gemini_fixture :: "string \<Rightarrow> json" where
  "gemini_fixture t =
     JObj [(''candidates'',
            JArr [JObj [(''content'', JObj [(''parts'', JArr [JObj [(''text'', JStr t)]])])]])]"

definition hello_fixture :: json where
  "hello_fixture =
     JObj [(''choices'', JArr [JObj [(''message'', JObj [(''content'', JStr ''hello'')])]])]"

text \<open>What \<open>response.json()\<close> gives for the body \<open>{"n":1e400}\<close>.\<close>

definition overflow_fixture :: json where
  "overflow_fixture = JObj [(''n'', JInfinity True)]"

definition data_fixture :: json where
  "data_fixture = JObj [(''data'', JArr [JObj [(''text'', JStr ''ok'')]])]"

definition example_config :: "string option \<Rightarrow> string option \<Rightarrow> CustomApiConfigForBackend" where
  "example_config headerName path =
     \<lparr> cfg_id = ''c1'', cfg_name = ''mine'', cfg_endpoint = ''https://example.com/api/chat'',
       cfg_apiKey = ''k'', cfg_apiKeyHeaderName = headerName, cfg_apiKeyPrefix = None,
       cfg_modelParamName = None, cfg_messagesParamName = None, cfg_responsePath = path \<rparr>"

definition example_request ::
  "string \<Rightarrow> string option \<Rightarrow> InboundMessage list option \<Rightarrow>
   CustomApiConfigForBackend option \<Rightarrow> RequestBody" where
  "example_request p k ms c =
     \<lparr> req_provider = Some p, req_apiKey = k, req_messages = ms, req_model = None,
       req_customApiConfig = c \<rparr>"

definition two_plus_two :: "InboundMessage list" where
  "two_plus_two = [\<lparr> in_sender = ''user'', in_text = ''2+2?'' \<rparr>]"

definition two_plus_two_api :: "ApiChatMessage list" where
  "two_plus_two_api = [\<lparr> msg_role = User, msg_content = ''2+2?'' \<rparr>]"

definition system_history :: "ApiChatMessage list" where
  "system_history =
     [\<lparr> msg_role = System, msg_content = ''be brief'' \<rparr>,
      \<lparr> msg_role = User, msg_content = ''hi'' \<rparr>,
      \<lparr> msg_role = System, msg_content = ''be kind'' \<rparr>,
      \<lparr> msg_role = Assistant, msg_content = ''hello'' \<rparr>]"

section \<open>Assignment of a new named property\<close>

lemma index_key_name:
  "index_key ''Authorization'' = None" "index_key ''system'' = None"
  by (simp_all add: index_key_def array_index_def is_digit_def)

lemma js_assign_new_name:
  "map_of kvs k = None \<Longrightarrow> index_key k = None \<Longrightarrow> js_assign k v kvs = kvs @ [(k, v)]"
  by (simp add: js_assign_def)

section \<open>The path traversal\<close>

lemma foldl_reduce_step_None: "foldl reduce_step None ks = None"
  by (induction ks) auto

lemma reduce_step_number: "spec_string (foldl reduce_step (Some (JNum n)) ks) = None"
  by (cases ks) (auto simp: foldl_reduce_step_None)

lemma array_index_length: "array_index ''length'' = None"
  by (simp add: array_index_def is_digit_def)

text \<open>
  The \<open>reduce\<close> of the source runs through every segment and carries \<open>undefined\<close>
  along; the walk of the specification stops. They end in the same string. The one
  key on which a step differs is \<open>length\<close> of an array, whose value is a number.
\<close>

lemma reduce_is_traverse:
  "spec_string (foldl reduce_step (Some v) ks) = spec_string (spec_traverse v ks)"
proof (induction ks arbitrary: v)
  case Nil
  show ?case by simp
next
  case (Cons k ks)
  show ?case
  proof (cases v)
    case (JArr xs)
    show ?thesis
    proof (cases "k = ''length''")
      case True
      with JArr show ?thesis
        by (simp add: js_in_def reduce_step_number array_index_length)
    next
      case False
      with JArr Cons.IH show ?thesis
        by (auto simp: js_in_def foldl_reduce_step_None split: option.splits)
    qed
  next
    case (JObj kvs)
    with Cons.IH show ?thesis
      by (auto simp: js_in_def foldl_reduce_step_None split: option.splits)
  qed (auto simp: foldl_reduce_step_None)
qed

lemma split_dot_not_Nil: "split_dot p \<noteq> []"
  by (induction p) (auto split: list.splits)

lemma getNestedValue_spec:
  "getNestedValue obj path =
     (if path = [] then None else spec_string (spec_traverse obj (split_dot path)))"
proof (cases "path = []")
  case True
  then show ?thesis by (simp add: getNestedValue_def)
next
  case False
  obtain k ks where sp: "split_dot path = k # ks"
    using split_dot_not_Nil[of path] by (cases "split_dot path") auto
  show ?thesis
  proof (cases "typeof_object obj \<and> obj \<noteq> JNull")
    case True
    have "getNestedValue obj path = spec_string (foldl reduce_step (Some obj) (split_dot path))"
      using True False
      by (auto simp add: getNestedValue_def split: option.splits json.splits)
    then show ?thesis using False by (simp add: reduce_is_traverse)
  next
    case primitive: False
    then have "spec_child obj k = None" by (cases obj) auto
    with sp False primitive show ?thesis by (auto simp: getNestedValue_def)
  qed
qed

lemma join_dot_Cons: "join_dot ((c # p) # ps) = c # join_dot (p # ps)"
  by (cases ps) auto

lemma join_dot_empty_segment: "ks \<noteq> [] \<Longrightarrow> join_dot ([] # ks) = CHR ''.'' # join_dot ks"
  by (cases ks) auto

lemma join_dot_split_dot: "join_dot (split_dot p) = p"
proof (induction p)
  case Nil
  show ?case by simp
next
  case (Cons c cs)
  obtain k ks where "split_dot cs = k # ks"
    using split_dot_not_Nil[of cs] by (cases "split_dot cs") auto
  with Cons show ?case by (simp add: join_dot_Cons join_dot_empty_segment)
qed

lemma split_dot_segments: "list_all (\<lambda>k. CHR ''.'' \<notin> set k) (split_dot p)"
  by (induction p) (auto split: list.splits)

text \<open>
  Claim C8. For every JSON value and every path, \<open>getNestedValue\<close> reads the path as the
  sequence of its segments between the dots (joined with dots they give the path back,
  and no segment holds a dot), each segment a plain key of an object or the index key of an
  array; it gives nothing as soon as a segment is missing or the value under it cannot be
  traversed, and nothing when the walk ends on a value that is not a string. The empty
  path gives nothing.
\<close>

theorem getNestedValue_walks_plain_keys:
  "getNestedValue obj path =
     (if path = [] then None else spec_string (spec_traverse obj (split_dot path)))
   \<and> join_dot (split_dot path) = path
   \<and> list_all (\<lambda>k. CHR ''.'' \<notin> set k) (split_dot path)"
  by (simp add: getNestedValue_spec join_dot_split_dot split_dot_segments)

theorem getNestedValue_walks_plain_keys_witness:
  "getNestedValue data_fixture ''data.0.text'' = Some ''ok''
   \<and> getNestedValue data_fixture ''data.1.text'' = None
   \<and> getNestedValue data_fixture ''data.0'' = None"
  using getNestedValue_walks_plain_keys[of data_fixture "''data.0.text''"]
        getNestedValue_walks_plain_keys[of data_fixture "''data.1.text''"]
        getNestedValue_walks_plain_keys[of data_fixture "''data.0''"]
  by (simp add: data_fixture_def array_index_def is_digit_def digit_val_def)

section \<open>The outbound calls of the relay\<close>

lemma route_calls:
  "(case route fetch p k isC cfg ms m of Inl e \<Rightarrow> [] | Inr rc \<Rightarrow> snd rc) =
   (if isC \<and> cfg \<noteq> None then [(Custom, customRequest (the cfg) ms m)]
    else if truthy_str k then
      (if p = ''deepseek'' then [(DeepSeek, deepSeekRequest (the k) ms m)]
       else if p = ''openai'' then [(OpenAI, openAIRequest (the k) ms m)]
       else if p = ''anthropic'' then [(Anthropic, anthropicRequest (the k) ms m)]
       else if p = ''gemini'' then [(Gemini, geminiRequest (the k) ms m)]
       else [])
    else [])"
  by (simp add: route_def perform_def callCustomAPI_def callDeepSeekAPI_def
     callOpenAIAPI_def callAnthropicAPI_def callGeminiAPI_def)

lemma POST_calls:
  "snd (POST fetch body) =
     (if \<not> truthy_str (req_provider body) \<or> req_messages body = None then []
      else if req_customApiConfig body = None \<and> \<not> truthy_str (req_apiKey body) then []
      else case route fetch (the (req_provider body)) (req_apiKey body)
                  (case req_customApiConfig body of None \<Rightarrow> False
                   | Some c \<Rightarrow> cfg_id c = the (req_provider body))
                  (req_customApiConfig body) (map apiMessage (the (req_messages body)))
                  (req_model body) of
             Inl e \<Rightarrow> [] | Inr rc \<Rightarrow> snd rc)"
  by (simp add: POST_def Let_def split: sum.splits prod.splits)

lemma POST_routed:
  assumes "req_provider body = Some p" "p \<noteq> []" "req_messages body = Some ms"
    and "req_customApiConfig body \<noteq> None \<or> truthy_str (req_apiKey body)"
  shows "POST fetch body =
     (case route fetch p (req_apiKey body)
             (case req_customApiConfig body of None \<Rightarrow> False | Some c \<Rightarrow> cfg_id c = p)
             (req_customApiConfig body) (map apiMessage ms) (req_model body) of
        Inl early \<Rightarrow> (early, [])
      | Inr (Inl message, calls) \<Rightarrow> (JsonError 500 message, calls)
      | Inr (Inr responseData, calls) \<Rightarrow>
          (Json200 (aiMessageText p
                      (case req_customApiConfig body of None \<Rightarrow> False | Some c \<Rightarrow> cfg_id c = p)
                      (req_customApiConfig body) responseData) responseData, calls))"
  using assms by (auto simp add: POST_def Let_def)

lemma route_result:
  "route fetch p k isC cfg ms m = Inr (res, calls) \<Longrightarrow> \<exists>a h. calls = [(a, h)] \<and> res = fetch h"
  by (auto simp: route_def perform_def callCustomAPI_def callDeepSeekAPI_def
     callOpenAIAPI_def callAnthropicAPI_def callGeminiAPI_def split: if_splits)

lemma POST_called_valid:
  assumes "snd (POST fetch body) = [(a, h)]"
  shows "\<exists>p ms. req_provider body = Some p \<and> p \<noteq> [] \<and> req_messages body = Some ms \<and>
          (req_customApiConfig body \<noteq> None \<or> truthy_str (req_apiKey body))"
proof -
  have v1: "truthy_str (req_provider body)" and v2: "req_messages body \<noteq> None"
    and v3: "req_customApiConfig body \<noteq> None \<or> truthy_str (req_apiKey body)"
    using assms unfolding POST_calls by (auto split: if_splits)
  from v1 obtain p where "req_provider body = Some p" "p \<noteq> []"
    by (cases "req_provider body") auto
  with v2 v3 show ?thesis by auto
qed

lemma POST_success:
  assumes calls: "snd (POST fetch body) = [(a, h)]" and ok: "fetch h = Inr r"
  shows "\<exists>p. req_provider body = Some p \<and>
          POST fetch body =
            (Json200 (aiMessageText p
                        (case req_customApiConfig body of None \<Rightarrow> False | Some c \<Rightarrow> cfg_id c = p)
                        (req_customApiConfig body) r) r, [(a, h)])"
proof -
  from POST_called_valid[OF calls] obtain p ms where
    v: "req_provider body = Some p" "p \<noteq> []" "req_messages body = Some ms"
       "req_customApiConfig body \<noteq> None \<or> truthy_str (req_apiKey body)"
    by blast
  let ?isC = "case req_customApiConfig body of None \<Rightarrow> False | Some c \<Rightarrow> cfg_id c = p"
  let ?route = "route fetch p (req_apiKey body) ?isC (req_customApiConfig body)
                  (map apiMessage ms) (req_model body)"
  note eq = POST_routed[OF v, of fetch]
  show ?thesis
  proof (cases ?route)
    case (Inl early)
    with eq calls show ?thesis by simp
  next
    case (Inr rc)
    obtain res cs where rc: "rc = (res, cs)" by (cases rc)
    from Inr rc route_result[of fetch p "req_apiKey body" ?isC "req_customApiConfig body"
        "map apiMessage ms" "req_model body" res cs]
    obtain a' h' where cs: "cs = [(a', h')]" and res: "res = fetch h'" by auto
    have "snd (POST fetch body) = cs"
      using eq Inr rc by (simp split: sum.splits)
    with calls cs have "a' = a" "h' = h" by auto
    with res ok have "res = Inr r" by simp
    with eq Inr rc cs \<open>a' = a\<close> \<open>h' = h\<close> v(1) show ?thesis by simp
  qed
qed

lemmas request_eval = example_request_def example_config_def stub_returning_def
  two_plus_two_def two_plus_two_api_def apiMessage_def

lemmas relay_eval = POST_def route_def perform_def callCustomAPI_def callDeepSeekAPI_def
  callOpenAIAPI_def callAnthropicAPI_def callGeminiAPI_def Let_def aiMessageText_def
  assigned_def first_of_array_def content_item_text_def choice_message_content_def
  candidate_part_text_def getNestedValue_def js_in_def hello_fixture_def

section \<open>The shapes the handler tests are the rules of the specification\<close>

lemma array_index_word [simp]:
  "array_index ''content'' = None" "array_index ''choices'' = None"
  "array_index ''candidates'' = None" "array_index ''message'' = None"
  "array_index ''parts'' = None" "array_index ''text'' = None"
  by (simp_all add: array_index_def is_digit_def)

lemma js_get_spec_child: "k \<noteq> ''length'' \<Longrightarrow> js_get v k = spec_child v k"
  by (cases v) auto

lemma content_item_text_spec: "content_item_text x = spec_string (spec_child x ''text'')"
  by (cases x) (auto simp: content_item_text_def split: option.splits json.splits)

lemma first_of_array_spec:
  "k \<noteq> ''length'' \<Longrightarrow>
   first_of_array r k = (case spec_child r k of Some (JArr (x # xs)) \<Rightarrow> Some x | _ \<Rightarrow> None)"
  by (cases r)
     (auto simp: first_of_array_def js_get_spec_child split: option.splits json.splits list.splits)

lemma anthropic_shape_spec:
  "(case first_of_array r ''content'' of Some x \<Rightarrow> content_item_text x | None \<Rightarrow> None)
     = spec_anthropic_rule r"
  by (simp add: first_of_array_spec content_item_text_spec spec_anthropic_rule_def
      split: option.splits json.splits list.splits)

lemma choice_message_content_spec:
  "choice_message_content x = spec_string (spec_traverse x [''message'', ''content''])"
proof (cases x)
  case (JObj kvs)
  show ?thesis
  proof (cases "map_of kvs ''message''")
    case None
    with JObj show ?thesis by (simp add: choice_message_content_def)
  next
    case (Some m)
    with JObj show ?thesis
      by (cases m) (auto simp: choice_message_content_def split: option.splits json.splits)
  qed
qed (auto simp: choice_message_content_def)

lemma openai_shape_spec:
  "(case first_of_array r ''choices'' of Some x \<Rightarrow> choice_message_content x | None \<Rightarrow> None)
     = spec_openai_rule r"
  by (simp add: first_of_array_spec choice_message_content_spec spec_openai_rule_def
      split: option.splits json.splits list.splits)

lemma part_text_spec:
  "(if truthy p \<and> typeof_object p then
      (case js_get p ''text'' of Some (JStr t) \<Rightarrow> Some t | _ \<Rightarrow> None) else None)
   = spec_string (spec_child p ''text'')"
  by (cases p) (auto split: option.splits json.splits)

lemma candidate_part_text_spec:
  "candidate_part_text x =
     (case spec_traverse x [''content'', ''parts''] of
        Some (JArr (p # ps)) \<Rightarrow> spec_string (spec_child p ''text'')
      | _ \<Rightarrow> None)"
proof (cases x)
  case (JObj kvs)
  show ?thesis
  proof (cases "map_of kvs ''content''")
    case None
    with JObj show ?thesis by (simp add: candidate_part_text_def)
  next
    case (Some c)
    show ?thesis
    proof (cases c)
      case (JObj cs)
      show ?thesis
        unfolding candidate_part_text_def
        using \<open>x = JObj kvs\<close> Some JObj
        by (simp add: part_text_spec split: option.splits json.splits list.splits)
    qed (use \<open>x = JObj kvs\<close> Some in \<open>auto simp: candidate_part_text_def\<close>)
  qed
qed (auto simp: candidate_part_text_def)

lemma gemini_shape_spec:
  "(case first_of_array r ''candidates'' of Some x \<Rightarrow> candidate_part_text x | None \<Rightarrow> None)
     = spec_gemini_rule r"
  by (simp add: first_of_array_spec candidate_part_text_spec spec_gemini_rule_def
      split: option.splits json.splits list.splits)

lemma assigned_unmatched:
  assumes "\<not> (isC \<and> truthy_str (case cfg of None \<Rightarrow> None | Some c \<Rightarrow> cfg_responsePath c))"
    and "if p = ''anthropic'' then spec_anthropic_rule r = None
         else if p = ''openai'' \<or> p = ''deepseek'' then spec_openai_rule r = None
         else if p = ''gemini'' then spec_gemini_rule r = None
         else spec_openai_rule r = None \<and> spec_anthropic_rule r = None"
  shows "assigned p isC cfg r = None"
proof -
  have fallback: "spec_openai_rule r = None \<Longrightarrow> spec_anthropic_rule r = None \<Longrightarrow>
        (case first_of_array r ''choices'' of
           Some firstChoice \<Rightarrow> choice_message_content firstChoice
         | None \<Rightarrow>
            (case first_of_array r ''content'' of
               Some firstContentItem \<Rightarrow> content_item_text firstContentItem
             | None \<Rightarrow> None)) = None"
    using openai_shape_spec[of r] anthropic_shape_spec[of r]
    by (cases "first_of_array r ''choices''") auto
  show ?thesis
    using assms fallback
    by (simp add: assigned_def Let_def anthropic_shape_spec openai_shape_spec gemini_shape_spec
        split: if_splits)
qed

lemma aiMessageText_unmatched:
  assumes "req_provider body = Some p" and "no_rule_matches body r"
  shows "aiMessageText p
           (case req_customApiConfig body of None \<Rightarrow> False | Some c \<Rightarrow> cfg_id c = p)
           (req_customApiConfig body) r =
         (if consulted_path body = None then ''Error: Could not parse AI response.''
          else ''Error: Custom API response format mismatch.'')"
proof (cases "consulted_path body")
  case None
  let ?isC = "case req_customApiConfig body of None \<Rightarrow> False | Some c \<Rightarrow> cfg_id c = p"
  have a: "\<not> (?isC \<and> truthy_str (case req_customApiConfig body of None \<Rightarrow> None
                                     | Some c \<Rightarrow> cfg_responsePath c))"
    using None assms(1) by (auto simp: consulted_path_def split: option.splits if_splits)
  have b: "if p = ''anthropic'' then spec_anthropic_rule r = None
         else if p = ''openai'' \<or> p = ''deepseek'' then spec_openai_rule r = None
         else if p = ''gemini'' then spec_gemini_rule r = None
         else spec_openai_rule r = None \<and> spec_anthropic_rule r = None"
    using assms None by (simp add: no_rule_matches_def split: if_splits)
  from assigned_unmatched[OF a b] None show ?thesis
    by (simp add: aiMessageText_def)
next
  case (Some path)
  then obtain c where c: "req_customApiConfig body = Some c" "cfg_id c = p"
      "cfg_responsePath c = Some path" "path \<noteq> []"
    using assms(1) by (auto simp: consulted_path_def split: option.splits if_splits)
  from assms(2) Some have "spec_string (spec_traverse r (split_dot path)) = None"
    by (simp add: no_rule_matches_def)
  with c(4) have "getNestedValue r path = None" by (simp add: getNestedValue_spec)
  with c Some show ?thesis
    by (simp add: aiMessageText_def assigned_def)
qed

section \<open>The claims\<close>

subsection \<open>Extraction on the custom path\<close>

text \<open>
  Claim C1. When the configuration of a custom provider has a response path that does not
  resolve in the response, the extraction is said to fall back to the
  \<open>choices[0].message.content\<close> shape and then to the \<open>content[0].text\<close> shape. The
  handler does not: the branch of the response path assigns
  \<open>"Error: Custom API response format mismatch."\<close> and the chain of \<open>else if\<close> never
  reaches the fallback branch, whose comment reads "if responsePath is not set or fails".
  At a response of the \<open>choices\<close> shape and the path \<open>data.text\<close> the relay answers
  with the mismatch text; the same request without a response path answers \<open>hello\<close>.
\<close>

theorem custom_failed_path_has_no_fallback:
  "POST (stub_returning hello_fixture)
     (example_request ''c1'' None (Some two_plus_two)
        (Some (example_config None (Some ''data.text''))))
     = (Json200 ''Error: Custom API response format mismatch.'' hello_fixture,
        [(Custom, customRequest (example_config None (Some ''data.text'')) two_plus_two_api None)])
   \<and> fst (POST (stub_returning hello_fixture)
          (example_request ''c1'' None (Some two_plus_two) (Some (example_config None None))))
     = Json200 ''hello'' hello_fixture"
  by (simp add: relay_eval request_eval)

theorem custom_failed_path_has_no_fallback_witness:
  "aiResponse (fst (POST (stub_returning hello_fixture)
     (example_request ''c1'' None (Some two_plus_two)
        (Some (example_config None (Some ''data.text''))))))
     \<noteq> ''hello''"
  using custom_failed_path_has_no_fallback by simp

subsection \<open>The key header of the custom adapter\<close>

text \<open>
  Claim C2, as worded, has the key written under the empty header name when
  \<open>apiKeyHeaderName\<close> is the empty string. The adapter tests the name for truthiness, so
  the empty name is treated as no name: no header with the empty name is written and the
  key goes under \<open>Authorization\<close> with the prefix \<open>Bearer\<close>.
\<close>

theorem empty_header_name_counterexample:
  "map_of (http_headers (customRequest (example_config (Some []) None) [] None)) [] = None
   \<and> map_of (http_headers (customRequest (example_config (Some []) None) [] None))
        ''Authorization'' = Some ''Bearer k''"
  by (simp add: customRequest_def custom_headers_def js_set_def example_config_def
      js_assign_new_name index_key_name)

text \<open>
  Claim C2, amended. For every configuration whose \<open>apiKeyHeaderName\<close> is the empty
  string and whose \<open>apiKey\<close> is not empty, the headers of the custom adapter are
  \<open>Content-Type\<close> and \<open>Authorization: Bearer <key>\<close>, as when the name is not set; the
  configured prefix is not used.
\<close>

theorem empty_header_name_uses_authorization:
  assumes "cfg_apiKeyHeaderName c = Some []" and "cfg_apiKey c \<noteq> []"
  shows "http_headers (customRequest c messages model) =
           [(''Content-Type'', ''application/json''),
            (''Authorization'', ''Bearer '' @ cfg_apiKey c)]"
  using assms
  by (simp add: customRequest_def custom_headers_def js_set_def js_assign_new_name index_key_name)

theorem empty_header_name_uses_authorization_witness:
  "http_headers (customRequest (example_config (Some []) None) [] None) =
     [(''Content-Type'', ''application/json''), (''Authorization'', ''Bearer k'')]"
  using empty_header_name_uses_authorization[of "example_config (Some []) None" "[]" None]
  by (simp add: example_config_def)

subsection \<open>System messages of the Anthropic adapter\<close>

lemma anthropic_filter_eq:
  "anthropic_filter sp ms =
     (filter (\<lambda>m. msg_role m \<noteq> System) ms,
      if filter (\<lambda>m. msg_role m = System) ms = [] then sp
      else msg_content (last (filter (\<lambda>m. msg_role m = System) ms)))"
  by (induction ms arbitrary: sp) auto

lemma anthropic_filter_last_system:
  "anthropic_filter [] ms = (filter (\<lambda>m. msg_role m \<noteq> System) ms, last_system ms)"
  by (simp add: anthropic_filter_eq last_system_def split: list.splits)

text \<open>
  Claim C3. For every history handed to the Anthropic adapter, the \<open>messages\<close> array of
  the request body is the history without its system messages, in the original order;
  the system string is the content of the last system message; and the body has a
  \<open>system\<close> field exactly when that string is not empty.
\<close>

theorem anthropic_system_messages_merged:
  "http_body (anthropicRequest apiKey messages model) =
     JObj ([(''model'', JStr (or_default model ''claude-3-sonnet-20240229'')),
            (''max_tokens'', JNum 1024),
            (''messages'',
             JArr (map anthropic_turn (filter (\<lambda>m. msg_role m \<noteq> System) messages)))]
           @ (if last_system messages = [] then []
              else [(''system'', JStr (last_system messages))]))"
  by (simp add: anthropicRequest_def anthropic_filter_last_system Let_def
      js_assign_new_name index_key_name)

theorem anthropic_system_messages_merged_witness:
  "http_body (anthropicRequest ''k'' system_history None) =
     JObj [(''model'', JStr ''claude-3-sonnet-20240229''),
           (''max_tokens'', JNum 1024),
           (''messages'',
            JArr [JObj [(''role'', JStr ''user''), (''content'', JStr ''hi'')],
                  JObj [(''role'', JStr ''assistant''), (''content'', JStr ''hello'')]]),
           (''system'', JStr ''be kind'')]"
  using anthropic_system_messages_merged[of "''k''" system_history None]
  by (simp add: system_history_def last_system_def anthropic_turn_def)

subsection \<open>Routing\<close>

lemma route_custom_iff:
  "(\<exists>res r. route fetch p k (case cfg of None \<Rightarrow> False | Some c \<Rightarrow> cfg_id c = p) cfg msgs m
             = Inr (res, [(Custom, r)]))
   \<longleftrightarrow> (\<exists>c. cfg = Some c \<and> cfg_id c = p)"
  by (cases cfg)
     (auto simp: route_def perform_def callCustomAPI_def callDeepSeekAPI_def
        callOpenAIAPI_def callAnthropicAPI_def callGeminiAPI_def)

text \<open>
  Claim C4. The handler validates before it routes. Whenever the routing of lines 260 to
  286 is reached, with whatever provider string, key, configuration and messages, the
  custom adapter is called when and only when a configuration is supplied whose id equals
  \<open>provider\<close>. For every inbound request of the declared type that passes the validation
  of \<open>provider\<close> and \<open>messages\<close> (\<open>provider\<close> not empty, \<open>messages\<close> present), the relay
  calls the custom adapter when and only when a configuration is supplied whose id equals
  \<open>provider\<close>, and then with that configuration; when a configuration is supplied whose
  id differs and an \<open>apiKey\<close> is present (a string the handler's test \<open>if (apiKey)\<close>
  accepts), the relay takes the built-in branch chosen by the provider string
  (\<open>deepseek\<close>, \<open>openai\<close>, \<open>anthropic\<close>, \<open>gemini\<close>), and calls nothing for any other
  string.
\<close>

theorem routing_after_validation:
  assumes "req_provider body = Some provider" and "provider \<noteq> []"
    and "req_messages body = Some ms"
  shows "((\<exists>res r. route fetch' p' k' (case cfg' of None \<Rightarrow> False | Some c \<Rightarrow> cfg_id c = p')
                     cfg' msgs' m' = Inr (res, [(Custom, r)]))
          \<longleftrightarrow> (\<exists>c. cfg' = Some c \<and> cfg_id c = p'))
       \<and> ((\<exists>r. snd (POST fetch body) = [(Custom, r)]) \<longleftrightarrow>
          (\<exists>c. req_customApiConfig body = Some c \<and> cfg_id c = provider))
       \<and> (\<forall>c. req_customApiConfig body = Some c \<and> cfg_id c = provider \<longrightarrow>
            snd (POST fetch body) =
              [(Custom, customRequest c (map apiMessage ms) (req_model body))])
       \<and> (\<forall>c k. req_customApiConfig body = Some c \<and> cfg_id c \<noteq> provider \<and>
                 req_apiKey body = Some k \<and> k \<noteq> [] \<longrightarrow>
            snd (POST fetch body) =
              (if provider = ''deepseek'' then
                 [(DeepSeek, deepSeekRequest k (map apiMessage ms) (req_model body))]
               else if provider = ''openai'' then
                 [(OpenAI, openAIRequest k (map apiMessage ms) (req_model body))]
               else if provider = ''anthropic'' then
                 [(Anthropic, anthropicRequest k (map apiMessage ms) (req_model body))]
               else if provider = ''gemini'' then
                 [(Gemini, geminiRequest k (map apiMessage ms) (req_model body))]
               else []))"
proof -
  have reached: "(\<exists>res r. route fetch' p' k' (case cfg' of None \<Rightarrow> False | Some c \<Rightarrow> cfg_id c = p')
                     cfg' msgs' m' = Inr (res, [(Custom, r)]))
          \<longleftrightarrow> (\<exists>c. cfg' = Some c \<and> cfg_id c = p')"
    by (rule route_custom_iff)
  have relay: "((\<exists>r. snd (POST fetch body) = [(Custom, r)]) \<longleftrightarrow>
          (\<exists>c. req_customApiConfig body = Some c \<and> cfg_id c = provider))
       \<and> (\<forall>c. req_customApiConfig body = Some c \<and> cfg_id c = provider \<longrightarrow>
            snd (POST fetch body) =
              [(Custom, customRequest c (map apiMessage ms) (req_model body))])
       \<and> (\<forall>c k. req_customApiConfig body = Some c \<and> cfg_id c \<noteq> provider \<and>
                 req_apiKey body = Some k \<and> k \<noteq> [] \<longrightarrow>
            snd (POST fetch body) =
              (if provider = ''deepseek'' then
                 [(DeepSeek, deepSeekRequest k (map apiMessage ms) (req_model body))]
               else if provider = ''openai'' then
                 [(OpenAI, openAIRequest k (map apiMessage ms) (req_model body))]
               else if provider = ''anthropic'' then
                 [(Anthropic, anthropicRequest k (map apiMessage ms) (req_model body))]
               else if provider = ''gemini'' then
                 [(Gemini, geminiRequest k (map apiMessage ms) (req_model body))]
               else []))"
    using assms unfolding POST_calls route_calls
    by (auto split: option.splits)
  from reached relay show ?thesis by blast
qed

theorem routing_after_validation_witness:
  "snd (POST (stub_returning hello_fixture)
          (example_request ''c1'' None (Some two_plus_two) (Some (example_config None None))))
     = [(Custom, customRequest (example_config None None) two_plus_two_api None)]
   \<and> snd (POST (stub_returning hello_fixture)
          (example_request ''openai'' (Some ''k'') (Some two_plus_two)
             (Some (example_config None None))))
     = [(OpenAI, openAIRequest ''k'' two_plus_two_api None)]"
  using routing_after_validation[of
          "example_request ''c1'' None (Some two_plus_two) (Some (example_config None None))"
          "''c1''" two_plus_two "stub_returning hello_fixture"]
        routing_after_validation[of
          "example_request ''openai'' (Some ''k'') (Some two_plus_two)
             (Some (example_config None None))"
          "''openai''" two_plus_two "stub_returning hello_fixture"]
  by (simp add: request_eval)

subsection \<open>Extraction failure\<close>

lemma stringified_plain: "plain_numbers r \<Longrightarrow> stringified r = r"
proof (induction r)
  case (JArr xs)
  then show ?case by (auto simp: list_all_iff intro!: map_idI)
next
  case (JObj kvs)
  have "map_prod id stringified kv = kv" if "kv \<in> set kvs" for kv
  proof -
    obtain k v where kv: "kv = (k, v)" by (cases kv)
    with that JObj.prems have "plain_numbers v" by (force simp: list_all_iff)
    moreover have "v \<in> Basic_BNFs.snds kv" using kv by simp
    ultimately have "stringified v = v" using JObj.IH that by blast
    with kv show ?thesis by simp
  qed
  then show ?case by (simp add: map_idI)
qed simp_all

text \<open>
  Claim C5, as worded, has the body of the provider come back unmodified as
  \<open>rawResponse\<close>. The handler passes the parsed value on untouched, but the value goes
  through \<open>response.json()\<close> and \<open>NextResponse.json\<close>: for the body \<open>{"n":1e400}\<close>, whose
  shape no rule matches, the number is parsed as \<open>Infinity\<close> and written back as \<open>null\<close>.
\<close>

theorem raw_response_overflow_counterexample:
  "delivered (fst (POST (stub_returning overflow_fixture)
                     (example_request ''openai'' (Some ''k'') (Some two_plus_two) None)))
     = Json200 ''Error: Could not parse AI response.'' (JObj [(''n'', JNull)])
   \<and> JObj [(''n'', JNull)] \<noteq> overflow_fixture"
  by (simp add: relay_eval request_eval overflow_fixture_def)

text \<open>
  Claim C5, amended. Whenever the relay has called a provider and the provider has answered
  with an ok status and a JSON body, the handler passes the parsed body \<open>responseData\<close> on
  untouched and the relay answers with status 200. The \<open>rawResponse\<close> that arrives is
  \<open>responseData\<close> as \<open>JSON.stringify\<close> writes it: equal to \<open>responseData\<close> when all its
  numbers are finite and none is \<open>-0\<close>, and otherwise with \<open>null\<close> for an infinity (a
  number of the body beyond the range of doubles) and \<open>0\<close> for \<open>-0\<close>; the numbers of
  \<open>responseData\<close> are the doubles that \<open>response.json()\<close> read. When no rule that the relay
  consults matches the body, \<open>aiResponse\<close> is a fixed failure text:
  \<open>"Error: Could not parse AI response."\<close>, or
  \<open>"Error: Custom API response format mismatch."\<close> when the rule was the response path
  of a custom configuration.
\<close>

theorem extraction_failure_is_not_fatal:
  assumes "snd (POST fetch body) = [(a, h)]" and "fetch h = Inr r"
  shows "\<exists>t. POST fetch body = (Json200 t r, [(a, h)]) \<and>
           delivered (fst (POST fetch body)) = Json200 t (stringified r) \<and>
           (plain_numbers r \<longrightarrow> stringified r = r) \<and>
           (no_rule_matches body r \<longrightarrow>
              t = (if consulted_path body = None then ''Error: Could not parse AI response.''
                   else ''Error: Custom API response format mismatch.''))"
proof -
  from POST_success[OF assms] obtain p where
    p: "req_provider body = Some p"
    and eq: "POST fetch body =
            (Json200 (aiMessageText p
                        (case req_customApiConfig body of None \<Rightarrow> False | Some c \<Rightarrow> cfg_id c = p)
                        (req_customApiConfig body) r) r, [(a, h)])"
    by blast
  from eq have "delivered (fst (POST fetch body)) =
      Json200 (aiMessageText p
                 (case req_customApiConfig body of None \<Rightarrow> False | Some c \<Rightarrow> cfg_id c = p)
                 (req_customApiConfig body) r) (stringified r)"
    by simp
  with eq aiMessageText_unmatched[OF p, of r] stringified_plain[of r] show ?thesis
    by auto
qed

theorem extraction_failure_is_not_fatal_witness:
  "POST (stub_returning (JObj [(''unexpected'', JBool True)]))
     (example_request ''openai'' (Some ''k'') (Some two_plus_two) None)
     = (Json200 ''Error: Could not parse AI response.'' (JObj [(''unexpected'', JBool True)]),
        [(OpenAI, openAIRequest ''k'' two_plus_two_api None)])
   \<and> delivered (fst (POST (stub_returning (JObj [(''unexpected'', JBool True)]))
        (example_request ''openai'' (Some ''k'') (Some two_plus_two) None)))
     = Json200 ''Error: Could not parse AI response.'' (JObj [(''unexpected'', JBool True)])"
proof -
  let ?r = "JObj [(''unexpected'', JBool True)]"
  let ?body = "example_request ''openai'' (Some ''k'') (Some two_plus_two) None"
  let ?h = "openAIRequest ''k'' two_plus_two_api None"
  have calls: "snd (POST (stub_returning ?r) ?body) = [(OpenAI, ?h)]"
    unfolding POST_calls route_calls by (simp add: request_eval)
  have ok: "stub_returning ?r ?h = Inr ?r"
    by (simp add: stub_returning_def)
  have none: "no_rule_matches ?body ?r"
    by (simp add: no_rule_matches_def consulted_path_def example_request_def
        spec_openai_rule_def)
  have path: "consulted_path ?body = None"
    by (simp add: consulted_path_def example_request_def)
  have plain: "plain_numbers ?r" by simp
  from extraction_failure_is_not_fatal[OF calls ok] none path plain show ?thesis by auto
qed

subsection \<open>Missing credentials\<close>

text \<open>
  Claim C6. For every inbound request in which \<open>provider\<close> and \<open>messages\<close> are present
  and both \<open>apiKey\<close> and \<open>customApiConfig\<close> are absent, the relay answers with status 400
  and an error envelope, and calls no provider. The message is \<open>"Missing apiKey"\<close>, or
  \<open>"Missing provider or messages"\<close> when the provider string is empty. An empty
  \<open>apiKey\<close> counts as an absent one.
\<close>

theorem missing_credentials_rejected:
  assumes "req_provider body = Some p" and "req_messages body = Some ms"
    and "\<not> truthy_str (req_apiKey body)" and "req_customApiConfig body = None"
  shows "POST fetch body =
           (JsonError 400 (if p = [] then ''Missing provider or messages'' else ''Missing apiKey''),
            [])"
  using assms by (simp add: POST_def)

theorem missing_credentials_rejected_witness:
  "POST (stub_returning hello_fixture) (example_request ''openai'' None (Some two_plus_two) None)
     = (JsonError 400 ''Missing apiKey'', [])"
  using missing_credentials_rejected[of
          "example_request ''openai'' None (Some two_plus_two) None" "''openai''" two_plus_two
          "stub_returning hello_fixture"]
  by (simp add: example_request_def)

subsection \<open>The Gemini adapter\<close>

text \<open>
  Claim C7. The Gemini adapter maps every message of the history to an entry of
  \<open>contents\<close> whose role is \<open>model\<close> for an assistant message and \<open>user\<close> for a system
  or user message. For every request that goes to the Gemini provider (provider
  \<open>gemini\<close>, messages and a key present, no configuration with the id \<open>gemini\<close>), when
  the provider answers with a body in which \<open>candidates[0].content.parts[0].text\<close> is the
  string \<open>t\<close>, the relay answers with \<open>aiResponse\<close> \<open>t\<close> and that body as
  \<open>rawResponse\<close>. The scenario of the specification is the body
  \<open>{candidates:[{content:{parts:[{text:"4"}]}}]}\<close>.
\<close>

theorem gemini_roles_and_reply:
  assumes "req_provider body = Some ''gemini''" and "req_messages body = Some ms"
    and "req_apiKey body = Some k" and "k \<noteq> []"
    and "\<forall>c. req_customApiConfig body = Some c \<longrightarrow> cfg_id c \<noteq> ''gemini''"
    and "fetch (geminiRequest k (map apiMessage ms) (req_model body)) = Inr r"
    and "spec_gemini_rule r = Some t"
  shows "http_body (geminiRequest apiKey messages model) =
           JObj [(''contents'',
                  JArr (map (\<lambda>m. JObj [(''role'', JStr (case msg_role m of
                                                          Assistant \<Rightarrow> ''model''
                                                        | System \<Rightarrow> ''user''
                                                        | User \<Rightarrow> ''user'')),
                                       (''parts'', JArr [JObj [(''text'', JStr (msg_content m))]])])
                         messages))]
       \<and> POST fetch body =
           (Json200 t r, [(Gemini, geminiRequest k (map apiMessage ms) (req_model body))])"
proof -
  have turn: "gemini_turn = (\<lambda>m. JObj [(''role'', JStr (case msg_role m of
                                                          Assistant \<Rightarrow> ''model''
                                                        | System \<Rightarrow> ''user''
                                                        | User \<Rightarrow> ''user'')),
                                       (''parts'', JArr [JObj [(''text'', JStr (msg_content m))]])])"
    by (rule ext) (simp add: gemini_turn_def gemini_role_def split: Role.splits)
  have contents: "http_body (geminiRequest apiKey messages model) =
      JObj [(''contents'', JArr (map gemini_turn messages))]"
    by (simp add: geminiRequest_def Let_def)
  have not_custom:
    "(case req_customApiConfig body of None \<Rightarrow> False | Some c \<Rightarrow> cfg_id c = ''gemini'') = False"
    using assms(5) by (auto split: option.splits)
  have routed: "route fetch ''gemini'' (req_apiKey body) False (req_customApiConfig body)
             (map apiMessage ms) (req_model body)
           = Inr (Inr r, [(Gemini, geminiRequest k (map apiMessage ms) (req_model body))])"
    using assms(3,4,6) by (simp add: route_def callGeminiAPI_def perform_def)
  have reply: "aiMessageText ''gemini'' False (req_customApiConfig body) r = t"
    using gemini_shape_spec[of r] assms(7)
    by (simp add: aiMessageText_def assigned_def)
  have "POST fetch body =
           (Json200 t r, [(Gemini, geminiRequest k (map apiMessage ms) (req_model body))])"
    using POST_routed[of body "''gemini''" ms fetch] assms(1-4) not_custom routed reply by simp
  with contents turn show ?thesis by simp
qed

theorem gemini_roles_and_reply_witness:
  "POST (stub_returning (gemini_fixture ''4''))
     (example_request ''gemini'' (Some ''k'') (Some two_plus_two) None)
     = (Json200 ''4'' (gemini_fixture ''4''),
        [(Gemini, geminiRequest ''k'' two_plus_two_api None)])
   \<and> http_body (geminiRequest ''k'' two_plus_two_api None) =
       JObj [(''contents'',
              JArr [JObj [(''role'', JStr ''user''), (''parts'', JArr [JObj [(''text'', JStr ''2+2?'')]])]])]"
proof -
  have rule: "spec_gemini_rule (gemini_fixture ''4'') = Some ''4''"
    by (simp add: spec_gemini_rule_def gemini_fixture_def)
  from gemini_roles_and_reply[of
          "example_request ''gemini'' (Some ''k'') (Some two_plus_two) None" two_plus_two "''k''"
          "stub_returning (gemini_fixture ''4'')" "gemini_fixture ''4''" "''4''"
          "''k''" two_plus_two_api None] rule
  show ?thesis by (simp add: request_eval)
qed

subsection \<open>Unsupported providers\<close>

lemma route_unsupported:
  assumes "truthy_str k"
    and "p \<noteq> ''deepseek''" and "p \<noteq> ''openai''" and "p \<noteq> ''anthropic''" and "p \<noteq> ''gemini''"
    and "\<forall>c. cfg = Some c \<longrightarrow> cfg_id c \<noteq> p"
  shows "route fetch p k (case cfg of None \<Rightarrow> False | Some c \<Rightarrow> cfg_id c = p) cfg msgs m
           = Inl (JsonError 400 ''Unsupported or misconfigured AI provider'')"
  using assms by (auto simp: route_def split: option.splits)

text \<open>
  Claim C10. The handler validates before it routes. For every inbound request of the
  declared type that passes the validation of \<open>provider\<close> and \<open>messages\<close> (\<open>provider\<close>
  not empty, \<open>messages\<close> present), whose provider string is none of \<open>deepseek\<close>,
  \<open>openai\<close>, \<open>anthropic\<close>, \<open>gemini\<close> and not the id of the supplied configuration,
  and which carries an \<open>apiKey\<close> (a string the handler's test \<open>if (apiKey)\<close> accepts),
  the relay answers with status 400 and the message
  \<open>"Unsupported or misconfigured AI provider"\<close> and calls no provider. The reserved keys
  \<open>replicate\<close> and \<open>openrouter\<close> are such strings. The \<open>switch\<close> of lines 267 to 286
  gives that answer whenever it is reached with such a provider string and key.
\<close>

theorem unsupported_provider_rejected:
  assumes "req_provider body = Some provider" and "provider \<noteq> []"
    and "req_messages body = Some ms"
    and "req_apiKey body = Some k" and "k \<noteq> []"
    and "provider \<noteq> ''deepseek''" and "provider \<noteq> ''openai''"
    and "provider \<noteq> ''anthropic''" and "provider \<noteq> ''gemini''"
    and "\<forall>c. req_customApiConfig body = Some c \<longrightarrow> cfg_id c \<noteq> provider"
  shows "POST fetch body = (JsonError 400 ''Unsupported or misconfigured AI provider'', [])
       \<and> route fetch' provider (Some k)
            (case cfg' of None \<Rightarrow> False | Some c \<Rightarrow> cfg_id c = provider) cfg' msgs' m'
           = (if \<exists>c. cfg' = Some c \<and> cfg_id c = provider
              then Inr (callCustomAPI fetch' (the cfg') msgs' m')
              else Inl (JsonError 400 ''Unsupported or misconfigured AI provider''))"
proof -
  have "route fetch provider (req_apiKey body)
          (case req_customApiConfig body of None \<Rightarrow> False | Some c \<Rightarrow> cfg_id c = provider)
          (req_customApiConfig body) (map apiMessage ms) (req_model body)
        = Inl (JsonError 400 ''Unsupported or misconfigured AI provider'')"
    using assms by (intro route_unsupported) auto
  with POST_routed[of body provider ms fetch] assms
  have relay: "POST fetch body = (JsonError 400 ''Unsupported or misconfigured AI provider'', [])"
    by simp
  have reached: "route fetch' provider (Some k)
            (case cfg' of None \<Rightarrow> False | Some c \<Rightarrow> cfg_id c = provider) cfg' msgs' m'
           = (if \<exists>c. cfg' = Some c \<and> cfg_id c = provider
              then Inr (callCustomAPI fetch' (the cfg') msgs' m')
              else Inl (JsonError 400 ''Unsupported or misconfigured AI provider''))"
    using assms(5-9) by (cases cfg') (auto simp: route_def)
  from relay reached show ?thesis by simp
qed

theorem unsupported_provider_rejected_witness:
  "POST (stub_returning hello_fixture)
     (example_request ''replicate'' (Some ''k'') (Some two_plus_two) None)
     = (JsonError 400 ''Unsupported or misconfigured AI provider'', [])
   \<and> POST (stub_returning hello_fixture)
        (example_request ''openrouter'' (Some ''k'') (Some two_plus_two)
           (Some (example_config None None)))
     = (JsonError 400 ''Unsupported or misconfigured AI provider'', [])"
  using unsupported_provider_rejected[of
          "example_request ''replicate'' (Some ''k'') (Some two_plus_two) None"
          "''replicate''" two_plus_two "''k''" "stub_returning hello_fixture"]
        unsupported_provider_rejected[of
          "example_request ''openrouter'' (Some ''k'') (Some two_plus_two)
             (Some (example_config None None))"
          "''openrouter''" two_plus_two "''k''" "stub_returning hello_fixture"]
  by (simp add: example_request_def example_config_def)

end
